theory Spec2Isabelle
  imports Complex_Main "HOL-Library.AList"
begin

section \<open>The federated averaging engine of modules/core/fl_engine.py\<close>

text \<open>
  Conventions of the embedding.
  \<^item> A Python \<open>float\<close> (IEEE binary64) is idealised as a \<open>real\<close>: rounding, overflow and
    signed zeros are outside the model. Where the source can return \<open>inf\<close> or \<open>nan\<close> as a
    value that is reported (the privacy epsilon), the type \<open>pyfloat\<close> is used. Where a
    tensor would leave the finite range, the model stops with the outcome \<open>NonFinite\<close>.
  \<^item> A Python \<open>int\<close> is an \<open>int\<close>.
  \<^item> Every \<open>np.ndarray\<close> of the engine has the shape \<open>(n_layers, 64)\<close>; it is represented
    by the list of its elements in row-major order. Elementwise numpy operations are maps
    over these lists. An in-place addition of arrays of different sizes is the outcome
    \<open>ValueError\<close> (broadcasting of a smaller operand is not modelled).
  \<^item> An exception is a value of type \<open>error\<close>; a function that can raise returns
    \<open>error + 'a\<close>, and a method that mutates its object also returns the object's state
    as it is when the exception leaves the method.
  \<^item> Draws from \<open>np.random\<close> and the clock \<open>time.time()\<close> are explicit arguments.
  \<^item> A leading underscore of a Python name is dropped.
\<close>

datatype error = IndexError | KeyError | ZeroDivisionError | ValueError | NonFinite

datatype pyfloat = Fin real | PosInf | NaN

type_synonym ndarray = "real list"

subsection \<open>Data classes\<close>

text \<open>
  \<open>node_id\<close> is a list of Unicode code points (\<open>chr(65+i)\<close> is not a byte for large
  \<open>i\<close>). The field \<open>weights\<close> of a node is called \<open>node_weights\<close>, since \<open>ModelVersion\<close>
  has a field \<open>weights\<close> too.
\<close>

record HospitalNode =
  node_id :: "nat list"
  n_samples :: int
  base_accuracy :: real
  noise_level :: real
  cloud_provider :: string
  region :: string
  encryption_active :: bool
  node_weights :: "ndarray option"
  last_loss :: real
  rounds_participated :: int

record FLRound =
  round_num :: int
  global_accuracy :: real
  global_loss :: real
  node_accuracies :: "(nat list \<times> real) list"
  weight_divergence :: real
  privacy_epsilon :: pyfloat
  secure_agg_status :: string
  converged :: bool

record ModelVersion =
  version_id :: int
  weights :: ndarray
  accuracy :: real
  timestamp :: real

subsection \<open>ModelRegistry\<close>

text \<open>
  The dictionary \<open>versions\<close> is an association list in insertion order; \<open>AList.update\<close>
  replaces the value of a key that is present and appends a new key at the end, as a
  Python \<open>dict\<close> does.
\<close>

record ModelRegistry =
  versions :: "(int \<times> ModelVersion) list"
  best_version_id :: int

definition ModelRegistry_init :: ModelRegistry where
  "ModelRegistry_init = \<lparr>versions = [], best_version_id = - 1\<rparr>"

definition getitem :: "('k \<times> 'v) list \<Rightarrow> 'k \<Rightarrow> error + 'v" where
  "getitem d k = (case map_of d k of None \<Rightarrow> Inl KeyError | Some v \<Rightarrow> Inr v)"

text \<open>
  \<open>save_version now version_id weights accuracy reg\<close>: \<open>now\<close> is the value of
  \<open>time.time()\<close> taken by the constructor of \<open>ModelVersion\<close>. The comparison reads the
  best version in the dictionary after the new version has been stored.
\<close>

definition save_version ::
  "real \<Rightarrow> int \<Rightarrow> ndarray \<Rightarrow> real \<Rightarrow> ModelRegistry \<Rightarrow> (error + unit) \<times> ModelRegistry" where
  "save_version now vid w acc reg =
     (let reg1 = reg\<lparr>versions := AList.update vid
                   \<lparr>version_id = vid, weights = w, accuracy = acc, timestamp = now\<rparr>
                   (versions reg)\<rparr>
      in if best_version_id reg1 = - 1 then (Inr (), reg1\<lparr>best_version_id := vid\<rparr>)
         else (case getitem (versions reg1) (best_version_id reg1) of
                 Inl err \<Rightarrow> (Inl err, reg1)
               | Inr b \<Rightarrow>
                   if acc > accuracy b then (Inr (), reg1\<lparr>best_version_id := vid\<rparr>)
                   else (Inr (), reg1)))"

definition get_latest :: "ModelRegistry \<Rightarrow> error + ModelVersion option" where
  "get_latest reg =
     (if versions reg = [] then Inr None
      else map_sum id Some (getitem (versions reg) (Max (set (map fst (versions reg))))))"

definition get_best :: "ModelRegistry \<Rightarrow> error + ModelVersion option" where
  "get_best reg =
     (if best_version_id reg = - 1 then Inr None
      else map_sum id Some (getitem (versions reg) (best_version_id reg)))"

text \<open>The registry after a sequence of \<open>save_version\<close> calls \<open>(now, id, weights, accuracy)\<close>.\<close>

fun save_all :: "(real \<times> int \<times> ndarray \<times> real) list \<Rightarrow> ModelRegistry \<Rightarrow> (error + unit) \<times> ModelRegistry" where
  "save_all [] reg = (Inr (), reg)"
| "save_all ((now, vid, w, acc) # rest) reg =
     (case save_version now vid w acc reg of
        (Inl err, reg1) \<Rightarrow> (Inl err, reg1)
      | (Inr u, reg1) \<Rightarrow> save_all rest reg1)"

subsection \<open>Privacy accounting\<close>

text \<open>
  \<open>compute_epsilon sigma n_samples delta\<close>. \<open>1.25 / delta\<close> is a division of Python
  floats, which raises for \<open>delta == 0\<close>; \<open>np.log\<close> and \<open>np.sqrt\<close> of a negative
  number are \<open>nan\<close>.
\<close>

definition compute_epsilon :: "real \<Rightarrow> int \<Rightarrow> real \<Rightarrow> error + pyfloat" where
  "compute_epsilon sigma n delta =
     (if sigma = 0 then Inr PosInf
      else if delta = 0 then Inl ZeroDivisionError
      else if 1.25 / delta < 0 then Inr NaN
      else if 2 * ln (1.25 / delta) < 0 then Inr NaN
      else Inr (Fin (sqrt (2 * ln (1.25 / delta)) / sigma)))"

subsection \<open>Aggregation\<close>

text \<open>
  The loop \<open>for w, n in zip(local_weights, sample_counts): aggregated += (n / total_samples) * w\<close>.
  \<open>n / total_samples\<close> divides two Python ints and raises for a zero divisor.
\<close>

fun agg_loop :: "int \<Rightarrow> (ndarray \<times> int) list \<Rightarrow> ndarray \<Rightarrow> error + ndarray" where
  "agg_loop total_samples [] aggregated = Inr aggregated"
| "agg_loop total_samples ((w, n) # rest) aggregated =
     (if total_samples = 0 then Inl ZeroDivisionError
      else if length w \<noteq> length aggregated then Inl ValueError
      else agg_loop total_samples rest
             (map2 (+) aggregated (map ((*) (real_of_int n / real_of_int total_samples)) w)))"

definition fedavg_aggregate :: "ndarray list \<Rightarrow> int list \<Rightarrow> error + ndarray" where
  "fedavg_aggregate local_weights sample_counts =
     (let total_samples = sum_list sample_counts
      in case local_weights of
           [] \<Rightarrow> Inl IndexError
         | w0 # _ \<Rightarrow>
             agg_loop total_samples (zip local_weights sample_counts) (replicate (length w0) 0))"

subsection \<open>FedAvgEngine: state and construction\<close>

record FedAvgEngine =
  n_hospitals :: int
  dp_enabled :: bool
  dp_sigma :: real
  lr :: real
  n_layers :: int
  hospitals :: "HospitalNode list"
  global_weights :: ndarray
  round_history :: "FLRound list"
  registry :: ModelRegistry

text \<open>
  The draws of \<open>__init__\<close>: \<open>sample_sizes i\<close> is element \<open>i\<close> of
  \<open>np.random.randint(150, 800, n_hospitals)\<close>, \<open>base_accuracies i\<close> element \<open>i\<close> of
  \<open>np.random.uniform(0.60, 0.75, n_hospitals)\<close>, \<open>region_choice i\<close> the value of
  \<open>np.random.randint(0, 3)\<close> for node \<open>i\<close>, \<open>node_init i\<close> the array
  \<open>np.random.randn(n_layers, 64)\<close> of node \<open>i\<close> and \<open>global_init\<close> the one of the
  global model.
\<close>

record init_draws =
  sample_sizes :: "nat \<Rightarrow> int"
  base_accuracies :: "nat \<Rightarrow> real"
  region_choice :: "nat \<Rightarrow> nat"
  node_init :: "nat \<Rightarrow> ndarray"
  global_init :: ndarray


definition clouds :: "string list" where
  "clouds = [''AWS'', ''GCP'', ''Azure'']"

definition regions :: "(string \<times> string list) list" where
  "regions =
     [(''AWS'', [''us-east-1'', ''us-west-2'', ''eu-central-1'']),
      (''GCP'', [''us-central1'', ''europe-west1'', ''asia-east1'']),
      (''Azure'', [''eastus'', ''westeurope'', ''southeastasia''])]"

definition init_node :: "init_draws \<Rightarrow> nat \<Rightarrow> HospitalNode" where
  "init_node d i =
     (let cloud = clouds ! (i mod 3);
          reg = the (map_of regions cloud) ! region_choice d i
      in \<lparr>node_id = map of_char ''Hospital-'' @ [65 + i],
          n_samples = sample_sizes d i,
          base_accuracy = base_accuracies d i,
          noise_level = 0,
          cloud_provider = cloud,
          region = reg,
          encryption_active = True,
          node_weights = Some (map ((*) 0.1) (node_init d i)),
          last_loss = 1,
          rounds_participated = 0\<rparr>)"

definition init_hospitals :: "init_draws \<Rightarrow> int \<Rightarrow> HospitalNode list" where
  "init_hospitals d n = map (init_node d) [0..<nat n]"

text \<open>
  \<open>FedAvgEngine_init d n_hospitals dp_enabled dp_sigma learning_rate n_layers\<close>. The
  constructor has no check of its own. numpy raises \<open>ValueError\<close> for a negative size,
  and \<open>chr\<close> for a code point above \<open>0x10FFFF\<close>.
\<close>

definition FedAvgEngine_init ::
  "init_draws \<Rightarrow> int \<Rightarrow> bool \<Rightarrow> real \<Rightarrow> real \<Rightarrow> int \<Rightarrow> error + FedAvgEngine" where
  "FedAvgEngine_init d n dp sigma learning_rate layers =
     (if n < 0 \<or> layers < 0 \<or> n > 1114047 then Inl ValueError
      else Inr \<lparr>n_hospitals = n,
                dp_enabled = dp,
                dp_sigma = sigma,
                lr = learning_rate,
                n_layers = layers,
                hospitals = init_hospitals d n,
                global_weights = map ((*) 0.1) (global_init d),
                round_history = [],
                registry = ModelRegistry_init\<rparr>)"

subsection \<open>One round\<close>

text \<open>
  The draws of one round. For the node at position \<open>i\<close> of \<open>hospitals\<close>:
  \<open>train_noise j\<close> is \<open>np.random.randn(*w.shape)\<close> of local epoch \<open>j\<close>; \<open>dp_noise\<close> is
  the standard normal array \<open>z\<close> with \<open>np.random.normal(0, s, shape) = s * z\<close>;
  \<open>acc_noise\<close> is \<open>np.random.normal(0, 0.008)\<close> inside \<open>_compute_accuracy\<close>;
  \<open>report_noise\<close> is \<open>np.random.normal(0, 0.01)\<close>. For the round:
  \<open>global_acc_noise\<close> is \<open>np.random.normal(0, 0.008)\<close> of the global estimate and
  \<open>clock\<close> is \<open>time.time()\<close> when the version is saved. The arrays have the shape of
  the global weights.
\<close>

record node_draws =
  train_noise :: "nat \<Rightarrow> ndarray"
  dp_noise :: ndarray
  acc_noise :: real
  report_noise :: real

record round_draws =
  node_draw :: "nat \<Rightarrow> node_draws"
  global_acc_noise :: real
  clock :: real

definition train_step :: "real \<Rightarrow> int \<Rightarrow> ndarray \<Rightarrow> ndarray \<Rightarrow> ndarray" where
  "train_step rate n z w =
     map2 (\<lambda>wi zi. wi - rate * (- wi * 0.08 + (zi * (1 / sqrt (real_of_int n))) * 0.15)) w z"

text \<open>
  For \<open>n_samples \<le> 0\<close> the factor \<open>1.0 / np.sqrt(n_samples)\<close> is \<open>inf\<close> or \<open>nan\<close>
  (numpy warns and does not raise).
\<close>

definition simulate_local_training ::
  "FedAvgEngine \<Rightarrow> (nat \<Rightarrow> ndarray) \<Rightarrow> HospitalNode \<Rightarrow> ndarray \<Rightarrow> int \<Rightarrow> error + ndarray" where
  "simulate_local_training e z node gw local_epochs =
     (if local_epochs \<le> 0 then Inr gw
      else if n_samples node \<le> 0 then Inl NonFinite
      else Inr (fold (\<lambda>j w. train_step (lr e) (n_samples node) (z j) w) [0..<nat local_epochs] gw))"

text \<open>
  \<open>2.0 / n_samples\<close> raises for \<open>n_samples == 0\<close>, and \<open>np.random.normal\<close> raises
  \<open>ValueError\<close> for a negative scale.
\<close>

definition add_dp_noise :: "FedAvgEngine \<Rightarrow> ndarray \<Rightarrow> ndarray \<Rightarrow> int \<Rightarrow> error + ndarray" where
  "add_dp_noise e z w n =
     (if n = 0 then Inl ZeroDivisionError
      else let sensitivity = 2 / real_of_int n;
               effective_sigma = dp_sigma e * sensitivity
           in if effective_sigma < 0 then Inl ValueError
              else Inr (map2 (\<lambda>wi zi. wi + effective_sigma * zi) w z))"

definition clip :: "real \<Rightarrow> real \<Rightarrow> real \<Rightarrow> real" where
  "clip x lo hi = min (max x lo) hi"

text \<open>\<open>compute_accuracy z weights round_num target\<close>; \<open>z\<close> is the draw of the noise.\<close>

definition compute_accuracy :: "real \<Rightarrow> ndarray \<Rightarrow> int \<Rightarrow> real \<Rightarrow> real" where
  "compute_accuracy z w r target =
     (let progress = 1 / (1 + exp (- 0.4 * (real_of_int r - 8)));
          base = 0.60 + (target - 0.60) * progress
      in clip (base + z) 0.50 0.99)"

text \<open>The body of the loop over the nodes, up to the weights the node transmits.\<close>

definition local_update :: "FedAvgEngine \<Rightarrow> node_draws \<Rightarrow> HospitalNode \<Rightarrow> error + ndarray" where
  "local_update e nd node =
     (case simulate_local_training e (train_noise nd) node (global_weights e) 3 of
        Inl err \<Rightarrow> Inl err
      | Inr w_local \<Rightarrow>
          if dp_enabled e then add_dp_noise e (dp_noise nd) w_local (n_samples node)
          else Inr w_local)"

fun node_loop ::
  "FedAvgEngine \<Rightarrow> round_draws \<Rightarrow> int \<Rightarrow> nat \<Rightarrow> HospitalNode list \<Rightarrow>
   ndarray list \<times> int list \<times> (nat list \<times> real) list \<Rightarrow>
   error + ndarray list \<times> int list \<times> (nat list \<times> real) list" where
  "node_loop e d r i [] acc = Inr acc"
| "node_loop e d r i (node # rest) (local_weights, sample_counts, accs) =
     (case local_update e (node_draw d i) node of
        Inl err \<Rightarrow> Inl err
      | Inr w_local \<Rightarrow>
          let node_acc = clip (compute_accuracy (acc_noise (node_draw d i)) w_local r 0.86
                               + report_noise (node_draw d i)) 0.5 0.99
          in node_loop e d r (Suc i) rest
               (local_weights @ [w_local], sample_counts @ [n_samples node],
                AList.update (node_id node) node_acc accs))"

definition norm_fro :: "ndarray \<Rightarrow> real" where
  "norm_fro w = sqrt (sum_list (map (\<lambda>x. x * x) w))"

definition mean :: "real list \<Rightarrow> real" where
  "mean xs = sum_list xs / real (length xs)"

definition py_min :: "int list \<Rightarrow> error + int" where
  "py_min xs = (case xs of [] \<Rightarrow> Inl ValueError | x # rest \<Rightarrow> Inr (fold min rest x))"

text \<open>
  The rollback decision of \<open>run_round\<close>: the weights and accuracy of the round and the
  flag \<open>rollback_active\<close>. A \<open>ModelVersion\<close> object is always true in a condition.
\<close>

definition rollback_protection ::
  "ModelVersion option \<Rightarrow> ndarray \<Rightarrow> real \<Rightarrow> ndarray \<times> real \<times> bool" where
  "rollback_protection prev_best new_global global_acc =
     (case prev_best of
        None \<Rightarrow> (new_global, global_acc, False)
      | Some b \<Rightarrow>
          if global_acc < accuracy b - 0.05 then (weights b, accuracy b, True)
          else (new_global, global_acc, False))"

definition report_epsilon :: "FedAvgEngine \<Rightarrow> int list \<Rightarrow> error + pyfloat" where
  "report_epsilon e sample_counts =
     (if dp_enabled e then
        (case py_min sample_counts of
           Inl err \<Rightarrow> Inl err
         | Inr m \<Rightarrow> compute_epsilon (dp_sigma e) m 0.00001)
      else Inr (Fin 0))"

definition run_round :: "round_draws \<Rightarrow> int \<Rightarrow> FedAvgEngine \<Rightarrow> (error + FLRound) \<times> FedAvgEngine" where
  "run_round d r e =
     (case node_loop e d r 0 (hospitals e) ([], [], []) of
        Inl err \<Rightarrow> (Inl err, e)
      | Inr (local_weights, sample_counts, accs) \<Rightarrow>
     (case fedavg_aggregate local_weights sample_counts of
        Inl err \<Rightarrow> (Inl err, e)
      | Inr candidate \<Rightarrow>
     (let w_divergence = mean (map (\<lambda>w. norm_fro (map2 (-) w candidate)) local_weights);
          candidate_acc = compute_accuracy (global_acc_noise d) candidate r 0.86
      in case get_best (registry e) of
        Inl err \<Rightarrow> (Inl err, e)
      | Inr prev_best \<Rightarrow>
     (case rollback_protection prev_best candidate candidate_acc of
        (new_global, global_acc, rollback_active) \<Rightarrow>
     (case save_version (clock d) r new_global global_acc (registry e) of
        (Inl err, reg1) \<Rightarrow> (Inl err, e\<lparr>registry := reg1\<rparr>)
      | (Inr u, reg1) \<Rightarrow>
     (case report_epsilon e sample_counts of
        Inl err \<Rightarrow> (Inl err, e\<lparr>registry := reg1\<rparr>)
      | Inr eps \<Rightarrow>
          let result = \<lparr>round_num = r,
                        global_accuracy = global_acc,
                        global_loss = 1 - global_acc,
                        node_accuracies = accs,
                        weight_divergence = w_divergence,
                        privacy_epsilon = eps,
                        secure_agg_status =
                          (if \<not> rollback_active then ''Rollback Strategy Active''
                           else ''Safe Rollback Applied''),
                        converged = (w_divergence < 0.01 \<and> r \<ge> 10)\<rparr>
          in (Inr result,
              e\<lparr>registry := reg1, global_weights := new_global,
                round_history := round_history e @ [result]\<rparr>)))))))"

subsection \<open>The simulation loop\<close>

text \<open>
  \<open>sim_loop ds k r e\<close> runs the rounds \<open>r, r + 1, ...\<close> of
  \<open>for r in range(1, n_rounds + 1)\<close> with \<open>k\<close> rounds left; \<open>ds r\<close> are the draws of
  round \<open>r\<close>.
\<close>

fun sim_loop :: "(int \<Rightarrow> round_draws) \<Rightarrow> nat \<Rightarrow> int \<Rightarrow> FedAvgEngine \<Rightarrow> (error + unit) \<times> FedAvgEngine" where
  "sim_loop ds 0 r e = (Inr (), e)"
| "sim_loop ds (Suc k) r e =
     (case run_round (ds r) r e of
        (Inl err, e1) \<Rightarrow> (Inl err, e1)
      | (Inr result, e1) \<Rightarrow>
          if converged result \<and> r > 15 then (Inr (), e1)
          else sim_loop ds k (r + 1) e1)"

definition run_simulation ::
  "(int \<Rightarrow> round_draws) \<Rightarrow> int \<Rightarrow> FedAvgEngine \<Rightarrow> (error + FLRound list) \<times> FedAvgEngine" where
  "run_simulation ds n_rounds e =
     (case sim_loop ds (nat n_rounds) 1 (e\<lparr>round_history := []\<rparr>) of
        (Inl err, e1) \<Rightarrow> (Inl err, e1)
      | (Inr u, e1) \<Rightarrow> (Inr (round_history e1), e1))"

subsection \<open>Well-formed registries\<close>

text \<open>
  The best pointer is the sentinel or the id of a stored version. Every registry built
  from the empty one by \<open>save_version\<close> is of this kind.
\<close>

definition registry_ok :: "ModelRegistry \<Rightarrow> bool" where
  "registry_ok reg = (best_version_id reg = - 1 \<or> best_version_id reg \<in> fst ` set (versions reg))"

subsection \<open>A concrete engine and concrete draws\<close>

text \<open>
  An engine with one hospital of 400 samples and one layer, built by the constructor from
  draws that are all zero, and rounds whose draws are all zero (\<open>quiet_round\<close>) or whose
  global accuracy noise is 1 (\<open>lucky_round\<close>). \<open>single_node_engine\<close> holds of an engine
  with one node of positive sample count, a noise scale that numpy accepts and a
  well-formed registry.
\<close>

definition demo_init :: init_draws where
  "demo_init = \<lparr>sample_sizes = (\<lambda>i. 400), base_accuracies = (\<lambda>i. 0.7),
                 region_choice = (\<lambda>i. 0), node_init = (\<lambda>i. replicate 64 0),
                 global_init = replicate 64 0\<rparr>"

definition quiet_node :: node_draws where
  "quiet_node = \<lparr>train_noise = (\<lambda>j. replicate 64 0), dp_noise = replicate 64 0,
                  acc_noise = 0, report_noise = 0\<rparr>"

definition quiet_round :: round_draws where
  "quiet_round = \<lparr>node_draw = (\<lambda>i. quiet_node), global_acc_noise = 0, clock = 0\<rparr>"

definition single_node_engine :: "FedAvgEngine \<Rightarrow> bool" where
  "single_node_engine e =
     (length (hospitals e) = 1 \<and> n_samples (hd (hospitals e)) > 0 \<and>
      (if dp_enabled e then dp_sigma e \<ge> 0 else True) \<and> registry_ok (registry e))"

definition lucky_round :: round_draws where
  "lucky_round = \<lparr>node_draw = (\<lambda>i. quiet_node), global_acc_noise = 1, clock = 0\<rparr>"

section \<open>Properties\<close>

subsection \<open>Registry\<close>

lemma save_version_rule:
  assumes "registry_ok reg"
  shows "\<exists>prev reg1. get_best reg = Inr prev \<and>
           save_version now vid w acc reg = (Inr (), reg1) \<and>
           best_version_id reg1 =
             (case prev of None \<Rightarrow> vid
              | Some b \<Rightarrow> if accuracy b < acc then vid else best_version_id reg) \<and>
           versions reg1 = AList.update vid
              \<lparr>version_id = vid, weights = w, accuracy = acc, timestamp = now\<rparr> (versions reg) \<and>
           registry_ok reg1"
proof (cases "best_version_id reg = - 1")
  case True
  then show ?thesis
    by (simp add: get_best_def save_version_def registry_ok_def dom_update)
next
  case False
  with assms have "best_version_id reg \<in> fst ` set (versions reg)"
    by (simp add: registry_ok_def)
  then obtain b where b: "map_of (versions reg) (best_version_id reg) = Some b"
    by (meson map_of_eq_None_iff not_Some_eq)
  show ?thesis
  proof (cases "vid = best_version_id reg")
    case True
    with False b show ?thesis
      by (simp add: get_best_def save_version_def registry_ok_def dom_update getitem_def
          update_conv')
  next
    case neq: False
    with False b assms show ?thesis
      by (auto simp add: get_best_def save_version_def registry_ok_def dom_update getitem_def
          update_conv')
  qed
qed

lemma save_all_ok:
  "registry_ok reg \<Longrightarrow> \<exists>reg1. save_all calls reg = (Inr (), reg1) \<and> registry_ok reg1"
proof (induction calls arbitrary: reg)
  case Nil
  then show ?case by simp
next
  case (Cons c calls)
  obtain now vid w acc where c: "c = (now, vid, w, acc)" by (cases c)
  from save_version_rule [OF Cons.prems, of now vid w acc]
  obtain reg1 where "save_version now vid w acc reg = (Inr (), reg1)" "registry_ok reg1"
    by blast
  with Cons.IH [of reg1] c show ?case by simp
qed

lemma registry_ok_init: "registry_ok ModelRegistry_init"
  by (simp add: registry_ok_def ModelRegistry_init_def)

text \<open>
  Claim C8. After every sequence of \<open>save_version\<close> calls on a new registry, a further
  call moves the best pointer to the new id if the registry has no best version or the new
  accuracy is strictly greater than the accuracy of the best version, and leaves it where
  it was otherwise. So the first saved version is the best one; after the accuracies
  0.70 and 0.60 the first version is the best, a third version at 0.50 leaves the pointer
  and a third version at 0.80 moves it. \<open>get_best\<close> and \<open>get_latest\<close> return \<open>None\<close>
  on the empty registry.
\<close>

theorem registry_best_pointer_rule:
  "(\<exists>reg prev reg1.
      save_all calls ModelRegistry_init = (Inr (), reg) \<and>
      get_best reg = Inr prev \<and>
      save_version now vid w acc reg = (Inr (), reg1) \<and>
      best_version_id reg1 =
        (case prev of None \<Rightarrow> vid
         | Some b \<Rightarrow> if accuracy b < acc then vid else best_version_id reg)) \<and>
   best_version_id (snd (save_version now vid w acc ModelRegistry_init)) = vid \<and>
   best_version_id (snd (save_all [(t1, 1, w1, 0.70), (t2, 2, w2, 0.60)] ModelRegistry_init)) = 1 \<and>
   best_version_id (snd (save_all [(t1, 1, w1, 0.70), (t2, 2, w2, 0.60), (t3, 3, w3, 0.50)]
      ModelRegistry_init)) = 1 \<and>
   best_version_id (snd (save_all [(t1, 1, w1, 0.70), (t2, 2, w2, 0.60), (t3, 3, w3, 0.80)]
      ModelRegistry_init)) = 3 \<and>
   get_best (snd (save_all [(t1, 1, w1, 0.70), (t2, 2, w2, 0.60)] ModelRegistry_init)) =
     Inr (Some \<lparr>version_id = 1, weights = w1, accuracy = 0.70, timestamp = t1\<rparr>) \<and>
   get_best ModelRegistry_init = Inr None \<and>
   get_latest ModelRegistry_init = Inr None"
proof -
  obtain reg where reg: "save_all calls ModelRegistry_init = (Inr (), reg)" "registry_ok reg"
    using save_all_ok [OF registry_ok_init] by blast
  from save_version_rule [OF reg(2), of now vid w acc] reg(1)
  have A: "\<exists>reg prev reg1.
      save_all calls ModelRegistry_init = (Inr (), reg) \<and>
      get_best reg = Inr prev \<and>
      save_version now vid w acc reg = (Inr (), reg1) \<and>
      best_version_id reg1 =
        (case prev of None \<Rightarrow> vid
         | Some b \<Rightarrow> if accuracy b < acc then vid else best_version_id reg)"
    by blast
  have B: "best_version_id (snd (save_version now vid w acc ModelRegistry_init)) = vid"
    by (simp add: save_version_def ModelRegistry_init_def)
  have C: "best_version_id (snd (save_all [(t1, 1, w1, 0.70), (t2, 2, w2, 0.60)] ModelRegistry_init)) = 1"
    by (simp add: save_version_def ModelRegistry_init_def getitem_def)
  have D: "best_version_id (snd (save_all [(t1, 1, w1, 0.70), (t2, 2, w2, 0.60), (t3, 3, w3, 0.50)]
      ModelRegistry_init)) = 1"
    by (simp add: save_version_def ModelRegistry_init_def getitem_def)
  have E: "best_version_id (snd (save_all [(t1, 1, w1, 0.70), (t2, 2, w2, 0.60), (t3, 3, w3, 0.80)]
      ModelRegistry_init)) = 3"
    by (simp add: save_version_def ModelRegistry_init_def getitem_def)
  have F: "get_best (snd (save_all [(t1, 1, w1, 0.70), (t2, 2, w2, 0.60)] ModelRegistry_init)) =
     Inr (Some \<lparr>version_id = 1, weights = w1, accuracy = 0.70, timestamp = t1\<rparr>)"
    by (simp add: save_version_def ModelRegistry_init_def getitem_def get_best_def)
  have G: "get_best ModelRegistry_init = Inr None" "get_latest ModelRegistry_init = Inr None"
    by (simp_all add: get_best_def get_latest_def ModelRegistry_init_def)
  from A B C D E F G show ?thesis by blast
qed

subsection \<open>Privacy accounting\<close>

text \<open>
  Claim C9. The epsilon that \<open>_compute_epsilon\<close> returns does not depend on the sample
  count: for every sigma and delta, two sample counts give the same outcome.
\<close>

theorem epsilon_independent_of_sample_count:
  "compute_epsilon sigma n1 delta = compute_epsilon sigma n2 delta"
  by (simp add: compute_epsilon_def)

subsection \<open>Aggregation\<close>

lemma agg_loop_sum:
  "N \<noteq> 0 \<Longrightarrow> \<forall>(w, n) \<in> set ps. length w = length acc \<Longrightarrow>
   agg_loop N ps acc =
     Inr (map (\<lambda>j. acc ! j + (\<Sum>(w, n)\<leftarrow>ps. real_of_int n / real_of_int N * w ! j))
            [0..<length acc])"
proof (induction ps arbitrary: acc)
  case Nil
  then show ?case by (simp add: map_nth)
next
  case (Cons p ps)
  obtain w n where p: "p = (w, n)" by (cases p)
  let ?c = "real_of_int n / real_of_int N"
  let ?acc = "map2 (+) acc (map ((*) ?c) w)"
  from Cons.prems p have lw: "length w = length acc" by simp
  then have la: "length ?acc = length acc" by simp
  from Cons.prems la have "\<forall>(w, n) \<in> set ps. length w = length ?acc" by auto
  from Cons.IH [OF Cons.prems(1) this]
  have "agg_loop N ps ?acc =
     Inr (map (\<lambda>j. ?acc ! j + (\<Sum>(w, n)\<leftarrow>ps. real_of_int n / real_of_int N * w ! j))
            [0..<length acc])" using la by simp
  moreover have "\<And>j. j < length acc \<Longrightarrow> ?acc ! j = acc ! j + ?c * w ! j"
    using lw by simp
  ultimately show ?case using Cons.prems(1) lw p by (simp add: algebra_simps)
qed



lemma fedavg_aggregate_sum:
  assumes "ws \<noteq> []" "sum_list ns \<noteq> 0" "\<forall>w \<in> set ws. length w = length (hd ws)"
  shows "fedavg_aggregate ws ns =
     Inr (map (\<lambda>j. \<Sum>(w, n)\<leftarrow>zip ws ns. real_of_int n / real_of_int (sum_list ns) * w ! j)
            [0..<length (hd ws)])"
proof -
  obtain w0 rest where ws: "ws = w0 # rest" using assms(1) by (cases ws) auto
  have "\<And>w. w \<in> set ws \<Longrightarrow> length w = length w0"
    using assms(3) ws by auto
  then have "\<forall>(w, n) \<in> set (zip ws ns). length w = length (replicate (length w0) (0::real))"
    using set_zip_leftD by fastforce
  from agg_loop_sum [OF assms(2) this] ws show ?thesis
    by (simp add: fedavg_aggregate_def)
qed

lemma sum_coeffs: "sum_list ns \<noteq> 0 \<Longrightarrow>
   (\<Sum>n\<leftarrow>ns. real_of_int n / real_of_int (sum_list ns)) = 1"
proof -
  assume a: "sum_list ns \<noteq> 0"
  have "(\<Sum>n\<leftarrow>ns. real_of_int n / d) = (\<Sum>n\<leftarrow>ns. real_of_int n) / d" for d :: real
    by (induction ns) (simp_all add: add_divide_distrib)
  then have "(\<Sum>n\<leftarrow>ns. real_of_int n / real_of_int (sum_list ns)) =
        (\<Sum>n\<leftarrow>ns. real_of_int n) / real_of_int (sum_list ns)" .
  also have "(\<Sum>n\<leftarrow>ns. real_of_int n) = real_of_int (sum_list ns)"
    by (induction ns) simp_all
  finally show ?thesis using a by simp
qed

lemma zip_const: "zip (map (\<lambda>_. c) ns) ns = map (\<lambda>n. (c, n)) ns"
  by (induction ns) simp_all

text \<open>
  Claim C3, as stated, fails: two weight arrays with one sample count are lists of
  mismatched length, and the aggregation returns a result.
\<close>

theorem fedavg_aggregate_mismatch_counterexample:
  "length [[1::real], [3]] \<noteq> length [1::int] \<and> fedavg_aggregate [[1], [3]] [1] = Inr [1]"
  by (simp add: fedavg_aggregate_def)

text \<open>
  Claim C3, amended. The aggregation raises \<open>IndexError\<close> for an empty list of weights.
  It does not check the lengths: with no sample counts it returns the zero array, and in
  general \<open>zip\<close> pairs weights and counts up to the shorter list while \<open>N\<close> is the sum of
  all counts. For a non-empty list of weights of one shape and \<open>N \<noteq> 0\<close> the result is
  the sum over the pairs of \<open>(n_k / N) * W_k\<close>, which for lists of equal length is the
  sample-count-weighted average.
\<close>

theorem fedavg_aggregate_behaviour:
  "fedavg_aggregate [] ns = Inl IndexError \<and>
   fedavg_aggregate (w0 # rest) [] = Inr (replicate (length w0) 0) \<and>
   (ws \<noteq> [] \<and> sum_list ns \<noteq> 0 \<and> (\<forall>w \<in> set ws. length w = length (hd ws)) \<longrightarrow>
      fedavg_aggregate ws ns =
        Inr (map (\<lambda>j. \<Sum>(w, n)\<leftarrow>zip ws ns. real_of_int n / real_of_int (sum_list ns) * w ! j)
               [0..<length (hd ws)]))"
proof -
  have A: "fedavg_aggregate [] ns = Inl IndexError"
    by (simp add: fedavg_aggregate_def)
  have B: "fedavg_aggregate (w0 # rest) [] = Inr (replicate (length w0) 0)"
    by (simp add: fedavg_aggregate_def)
  from A B fedavg_aggregate_sum [of ws ns] show ?thesis by blast
qed

theorem fedavg_aggregate_behaviour_witness:
  "fedavg_aggregate [[1, 2], [3, 6]] [1, 3] = Inr [5 / 2, 5]"
  using fedavg_aggregate_behaviour [where ns = "[1, 3]" and ws = "[[1, 2], [3, 6]]"] by simp

text \<open>
  Claim C5. Two nodes with the same sample count \<open>n \<noteq> 0\<close> and weights of one shape
  aggregate to \<open>(W_a + W_b) / 2\<close>. For sample counts with \<open>N \<noteq> 0\<close> the coefficients
  \<open>n_k / N\<close> sum to 1 within \<open>1e-9\<close>: their sum is what the aggregation returns for
  weights that are all the one-element array \<open>[1]\<close>.
\<close>

theorem fedavg_equal_counts_and_unit_weighting:
  "(n \<noteq> 0 \<and> length wa = length wb \<longrightarrow>
      fedavg_aggregate [wa, wb] [n, n] = Inr (map2 (\<lambda>a b. (a + b) / 2) wa wb)) \<and>
   (ns \<noteq> [] \<and> sum_list ns \<noteq> 0 \<longrightarrow>
      (\<exists>s. fedavg_aggregate (map (\<lambda>_. [1]) ns) ns = Inr [s] \<and>
           s = (\<Sum>n\<leftarrow>ns. real_of_int n / real_of_int (sum_list ns)) \<and>
           \<bar>s - 1\<bar> \<le> 1 / 10 ^ 9))"
proof (intro conjI impI)
  assume a: "n \<noteq> 0 \<and> length wa = length wb"
  then have half: "real_of_int n / (real_of_int n + real_of_int n) = 1 / 2" by simp
  have "fedavg_aggregate [wa, wb] [n, n] =
     Inr (map (\<lambda>j. \<Sum>(w, m)\<leftarrow>zip [wa, wb] [n, n]. real_of_int m / real_of_int (sum_list [n, n]) * w ! j)
            [0..<length (hd [wa, wb])])"
    using a by (subst fedavg_aggregate_sum) simp_all
  also have "\<dots> = Inr (map2 (\<lambda>a b. (a + b) / 2) wa wb)"
    using a half by (intro arg_cong [where f=Inr] nth_equalityI) (simp_all add: add_divide_distrib)
  finally show "fedavg_aggregate [wa, wb] [n, n] = Inr (map2 (\<lambda>a b. (a + b) / 2) wa wb)" .
next
  assume a: "ns \<noteq> [] \<and> sum_list ns \<noteq> 0"
  have "fedavg_aggregate (map (\<lambda>_. [1]) ns) ns =
     Inr (map (\<lambda>j. \<Sum>(w, n)\<leftarrow>zip (map (\<lambda>_. [1]) ns) ns. real_of_int n / real_of_int (sum_list ns) * w ! j)
            [0..<length (hd (map (\<lambda>_. [1::real]) ns))])"
  proof (rule fedavg_aggregate_sum)
    show "map (\<lambda>_. [1::real]) ns \<noteq> []" using a by simp
    show "sum_list ns \<noteq> 0" using a by simp
    show "\<forall>w\<in>set (map (\<lambda>_. [1::real]) ns). length w = length (hd (map (\<lambda>_. [1::real]) ns))"
      using a by (cases ns) auto
  qed
  moreover have "length (hd (map (\<lambda>_. [1::real]) ns)) = 1" using a by (cases ns) auto
  ultimately have "fedavg_aggregate (map (\<lambda>_. [1]) ns) ns =
     Inr [\<Sum>n\<leftarrow>ns. real_of_int n / real_of_int (sum_list ns)]"
    by (simp add: zip_const o_def)
  then show "\<exists>s. fedavg_aggregate (map (\<lambda>_. [1]) ns) ns = Inr [s] \<and>
           s = (\<Sum>n\<leftarrow>ns. real_of_int n / real_of_int (sum_list ns)) \<and>
           \<bar>s - 1\<bar> \<le> 1 / 10 ^ 9"
    using sum_coeffs [of ns] a by simp
qed

theorem fedavg_equal_counts_and_unit_weighting_witness:
  "fedavg_aggregate [[1, 2], [3, 5]] [200, 200] = Inr [2, 7 / 2] \<and>
   (\<exists>s. fedavg_aggregate [[1], [1], [1]] [150, 300, 450] = Inr [s] \<and> \<bar>s - 1\<bar> \<le> 1 / 10 ^ 9)"
  using fedavg_equal_counts_and_unit_weighting
    [where n = 200 and wa = "[1, 2]" and wb = "[3, 5]" and ns = "[150, 300, 450]"]
  by simp


subsection \<open>One round\<close>

lemma run_round_Inr:
  assumes "run_round d r e = (Inr res, e1)"
  obtains local_weights sample_counts accs candidate prev_best new_global global_acc
          rollback_active reg1 eps
  where "node_loop e d r 0 (hospitals e) ([], [], []) = Inr (local_weights, sample_counts, accs)"
    and "fedavg_aggregate local_weights sample_counts = Inr candidate"
    and "get_best (registry e) = Inr prev_best"
    and "rollback_protection prev_best candidate
           (compute_accuracy (global_acc_noise d) candidate r 0.86) =
         (new_global, global_acc, rollback_active)"
    and "save_version (clock d) r new_global global_acc (registry e) = (Inr (), reg1)"
    and "report_epsilon e sample_counts = Inr eps"
    and "res = \<lparr>round_num = r,
                 global_accuracy = global_acc,
                 global_loss = 1 - global_acc,
                 node_accuracies = accs,
                 weight_divergence =
                   mean (map (\<lambda>w. norm_fro (map2 (-) w candidate)) local_weights),
                 privacy_epsilon = eps,
                 secure_agg_status =
                   (if \<not> rollback_active then ''Rollback Strategy Active''
                    else ''Safe Rollback Applied''),
                 converged =
                   (mean (map (\<lambda>w. norm_fro (map2 (-) w candidate)) local_weights) < 0.01
                    \<and> r \<ge> 10)\<rparr>"
    and "e1 = e\<lparr>registry := reg1, global_weights := new_global,
                 round_history := round_history e @ [res]\<rparr>"
  using assms unfolding run_round_def Let_def
  by (auto split: sum.splits prod.splits)

lemma run_round_Inl:
  "run_round d r e = (Inl err, e1) \<Longrightarrow> round_history e1 = round_history e"
  unfolding run_round_def Let_def
  by (auto split: sum.splits prod.splits)

lemma compute_accuracy_weights: "compute_accuracy z w r t = compute_accuracy z w' r t"
  by (simp add: compute_accuracy_def)

text \<open>
  Claim C6. Every round that \<open>run_round\<close> executes as round \<open>r\<close> is recorded with the
  round number \<open>r\<close>, and its flag \<open>converged\<close> is true if and only if the recorded
  weight divergence is below 0.01 and the round number is at least 10; a round executed
  with a number below 10 is never converged.
\<close>

theorem convergence_decision:
  assumes "run_round d r e = (Inr res, e1)"
  shows "round_history e1 = round_history e @ [res] \<and>
         round_num res = r \<and>
         (converged res \<longleftrightarrow> weight_divergence res < 0.01 \<and> round_num res \<ge> 10) \<and>
         (converged res \<longleftrightarrow> weight_divergence res < 0.01 \<and> r \<ge> 10) \<and>
         (r < 10 \<longrightarrow> \<not> converged res)"
  using assms by (elim run_round_Inr) auto

text \<open>
  Claim C1. In every round that is recorded while the registry has a best version, the
  recorded global accuracy is at least the best accuracy minus 0.05. When the estimated
  accuracy of the candidate is more than 0.05 below the best accuracy, the round's accuracy
  and the global weights are those of the best version, the version saved for the round
  carries them too, and the status of the round is \<open>Safe Rollback Applied\<close> (the tag
  \<open>rollback_applied\<close> of the specification).
\<close>

theorem rollback_bound:
  assumes "run_round d r e = (Inr res, e1)" and "get_best (registry e) = Inr (Some b)"
  shows "global_accuracy res \<ge> accuracy b - 0.05 \<and>
         (compute_accuracy (global_acc_noise d) w r 0.86 < accuracy b - 0.05 \<longrightarrow>
            global_accuracy res = accuracy b \<and>
            global_weights e1 = weights b \<and>
            secure_agg_status res = ''Safe Rollback Applied'' \<and>
            map_of (versions (registry e1)) r =
              Some \<lparr>version_id = r, weights = weights b, accuracy = accuracy b,
                    timestamp = clock d\<rparr>)"
proof -
  from assms(1) show ?thesis
  proof (rule run_round_Inr)
    fix local_weights sample_counts accs candidate prev_best new_global global_acc
        rollback_active reg1 eps
    assume gb: "get_best (registry e) = Inr prev_best"
      and rb: "rollback_protection prev_best candidate
           (compute_accuracy (global_acc_noise d) candidate r 0.86) =
         (new_global, global_acc, rollback_active)"
      and sv: "save_version (clock d) r new_global global_acc (registry e) = (Inr (), reg1)"
      and res: "res = \<lparr>round_num = r,
                 global_accuracy = global_acc,
                 global_loss = 1 - global_acc,
                 node_accuracies = accs,
                 weight_divergence =
                   mean (map (\<lambda>w. norm_fro (map2 (-) w candidate)) local_weights),
                 privacy_epsilon = eps,
                 secure_agg_status =
                   (if \<not> rollback_active then ''Rollback Strategy Active''
                    else ''Safe Rollback Applied''),
                 converged =
                   (mean (map (\<lambda>w. norm_fro (map2 (-) w candidate)) local_weights) < 0.01
                    \<and> r \<ge> 10)\<rparr>"
      and e1: "e1 = e\<lparr>registry := reg1, global_weights := new_global,
                 round_history := round_history e @ [res]\<rparr>"
    from gb assms(2) have pb: "prev_best = Some b" by simp
    have cw: "compute_accuracy (global_acc_noise d) candidate r 0.86 =
              compute_accuracy (global_acc_noise d) w r 0.86"
      by (rule compute_accuracy_weights)
    have vs: "versions reg1 = AList.update r
        \<lparr>version_id = r, weights = new_global, accuracy = global_acc, timestamp = clock d\<rparr>
        (versions (registry e))"
      using sv by (auto simp: save_version_def Let_def split: if_splits sum.splits)
    show ?thesis
      using rb pb cw res e1 vs
      by (auto simp: rollback_protection_def update_conv' split: if_splits)
  qed
qed

lemma ln_125000: "\<not> 2 * ln (1.25 / 0.00001 :: real) < 0"
proof -
  have "(1.25 / 0.00001 :: real) \<ge> 1" by simp
  then have "ln (1.25 / 0.00001 :: real) \<ge> 0" by (rule ln_ge_zero)
  then show ?thesis by simp
qed

text \<open>
  Claim C2. In every round that is recorded, the privacy epsilon is
  \<open>sqrt (2 * ln (1.25 / delta)) / sigma\<close> with \<open>delta = 1e-5\<close> when DP is enabled and
  \<open>sigma > 0\<close>, is \<open>+inf\<close> when DP is enabled and \<open>sigma = 0\<close>, and is 0 when DP is
  disabled; in that case the weights a node transmits are the result of its local
  training, with no call of the noise function.
\<close>

theorem epsilon_reporting:
  assumes "run_round d r e = (Inr res, e1)"
  shows "(dp_enabled e \<and> dp_sigma e > 0 \<longrightarrow>
            privacy_epsilon res = Fin (sqrt (2 * ln (1.25 / 0.00001)) / dp_sigma e)) \<and>
         (dp_enabled e \<and> dp_sigma e = 0 \<longrightarrow> privacy_epsilon res = PosInf) \<and>
         (\<not> dp_enabled e \<longrightarrow>
            privacy_epsilon res = Fin 0 \<and>
            (\<forall>nd node. local_update e nd node =
               simulate_local_training e (train_noise nd) node (global_weights e) 3))"
proof -
  from assms show ?thesis
  proof (rule run_round_Inr)
    fix sample_counts eps accs candidate local_weights rollback_active global_acc
    assume eps: "report_epsilon e sample_counts = Inr eps"
      and res: "res = \<lparr>round_num = r,
                 global_accuracy = global_acc,
                 global_loss = 1 - global_acc,
                 node_accuracies = accs,
                 weight_divergence =
                   mean (map (\<lambda>w. norm_fro (map2 (-) w candidate)) local_weights),
                 privacy_epsilon = eps,
                 secure_agg_status =
                   (if \<not> rollback_active then ''Rollback Strategy Active''
                    else ''Safe Rollback Applied''),
                 converged =
                   (mean (map (\<lambda>w. norm_fro (map2 (-) w candidate)) local_weights) < 0.01
                    \<and> r \<ge> 10)\<rparr>"
    have pe: "privacy_epsilon res = eps" using res by simp
    have A: "dp_enabled e \<and> dp_sigma e > 0 \<longrightarrow>
            eps = Fin (sqrt (2 * ln (1.25 / 0.00001)) / dp_sigma e)"
      using eps ln_125000
      by (auto simp: report_epsilon_def compute_epsilon_def split: sum.splits if_splits)
    have B: "dp_enabled e \<and> dp_sigma e = 0 \<longrightarrow> eps = PosInf"
      using eps
      by (auto simp: report_epsilon_def compute_epsilon_def split: sum.splits if_splits)
    have C: "\<not> dp_enabled e \<longrightarrow> eps = Fin 0"
      using eps by (auto simp: report_epsilon_def)
    have D: "\<not> dp_enabled e \<longrightarrow> (\<forall>nd node. local_update e nd node =
               simulate_local_training e (train_noise nd) node (global_weights e) 3)"
      by (auto simp: local_update_def split: sum.splits)
    from A B C D pe show ?thesis by simp
  qed
qed

subsection \<open>The simulation loop\<close>

lemma run_round_round_num:
  "run_round d r e = (Inr res, e1) \<Longrightarrow>
     round_num res = r \<and> round_history e1 = round_history e @ [res]"
  by (erule run_round_Inr) simp

lemma sim_loop_history:
  "\<exists>rs. round_history (snd (sim_loop ds k r e)) = round_history e @ rs \<and>
        map round_num rs = [r..r + int (length rs) - 1] \<and>
        length rs \<le> k \<and>
        (\<forall>x \<in> set (butlast rs). \<not> (converged x \<and> round_num x > 15)) \<and>
        (fst (sim_loop ds k r e) = Inr () \<longrightarrow>
           length rs = k \<or> (rs \<noteq> [] \<and> converged (last rs) \<and> round_num (last rs) > 15))"
proof (induction k arbitrary: r e)
  case 0
  show ?case by (rule exI [of _ "[]"]) simp
next
  case (Suc k)
  obtain out e1 where rr: "run_round (ds r) r e = (out, e1)" by (cases "run_round (ds r) r e")
  show ?case
  proof (cases out)
    case (Inl err)
    with rr have "round_history e1 = round_history e" by (simp add: run_round_Inl)
    with rr Inl show ?thesis by (intro exI [of _ "[]"]) simp
  next
    case (Inr res)
    with rr have res: "round_num res = r" "round_history e1 = round_history e @ [res]"
      by (simp_all add: run_round_round_num)
    show ?thesis
    proof (cases "converged res \<and> r > 15")
      case True
      with rr Inr res show ?thesis by (intro exI [of _ "[res]"]) simp
    next
      case False
      from Suc.IH [of "r + 1" e1] obtain rs where rs:
        "round_history (snd (sim_loop ds k (r + 1) e1)) = round_history e1 @ rs"
        "map round_num rs = [r + 1..r + 1 + int (length rs) - 1]"
        "length rs \<le> k"
        "\<forall>x \<in> set (butlast rs). \<not> (converged x \<and> round_num x > 15)"
        "fst (sim_loop ds k (r + 1) e1) = Inr () \<longrightarrow>
           length rs = k \<or> (rs \<noteq> [] \<and> converged (last rs) \<and> round_num (last rs) > 15)"
        by blast
      have sl: "sim_loop ds (Suc k) r e = sim_loop ds k (r + 1) e1"
        using rr Inr False by auto
      have nums: "map round_num (res # rs) = [r..r + int (length (res # rs)) - 1]"
      proof -
        have "[r..r + int (length (res # rs)) - 1] = r # [r + 1..r + int (length (res # rs)) - 1]"
          by (rule upto_rec1) simp
        also have "r + int (length (res # rs)) - 1 = r + 1 + int (length rs) - 1" by simp
        finally show ?thesis using rs(2) res(1) by simp
      qed
      have bl: "\<forall>x \<in> set (butlast (res # rs)). \<not> (converged x \<and> round_num x > 15)"
        using rs(4) False res(1) by auto
      show ?thesis
        apply (rule exI [of _ "res # rs"])
        unfolding sl
        using rs(1) rs(3) rs(5) res(2) nums bl by auto
    qed
  qed
qed

subsection \<open>Rounds of a single-node engine\<close>

lemma local_update_ok:
  assumes "n_samples node > 0" "dp_enabled e \<longrightarrow> dp_sigma e \<ge> 0"
  shows "\<exists>w. local_update e nd node = Inr w"
proof -
  have "dp_sigma e \<ge> 0 \<Longrightarrow> \<not> dp_sigma e * (2 / real_of_int (n_samples node)) < 0"
    using assms(1) by (simp add: not_less)
  then show ?thesis
    using assms by (auto simp: local_update_def simulate_local_training_def add_dp_noise_def Let_def)
qed

lemma aggregate_single:
  assumes "n \<noteq> 0"
  shows "fedavg_aggregate [w] [n] = Inr w"
proof -
  have "map2 (+) (replicate (length w) 0) (map ((*) 1) w) = w"
    by (rule nth_equalityI) simp_all
  then show ?thesis using assms by (simp add: fedavg_aggregate_def)
qed

lemma divergence_single: "mean (map (\<lambda>w. norm_fro (map2 (-) w c)) [c]) = 0"
proof -
  have "map (\<lambda>x. x * x) (map2 (-) c c) = replicate (length c) 0"
    by (rule nth_equalityI) simp_all
  then show ?thesis by (simp add: mean_def norm_fro_def sum_list_replicate)
qed

lemma report_epsilon_ok: "\<exists>eps. report_epsilon e [n] = Inr eps"
  using ln_125000 by (simp add: report_epsilon_def py_min_def compute_epsilon_def)

lemma single_node_round:
  assumes "single_node_engine e"
  shows "\<exists>res e1. run_round d r e = (Inr res, e1) \<and> weight_divergence res = 0 \<and>
           single_node_engine e1 \<and> dp_enabled e1 = dp_enabled e \<and> dp_sigma e1 = dp_sigma e"
proof -
  from assms obtain node where h: "hospitals e = [node]"
    by (cases "hospitals e") (auto simp: single_node_engine_def)
  with assms have n: "n_samples node > 0" and dp: "dp_enabled e \<longrightarrow> dp_sigma e \<ge> 0"
    and ok: "registry_ok (registry e)"
    by (auto simp: single_node_engine_def split: if_splits)
  from local_update_ok [OF n dp] obtain w where w: "local_update e (node_draw d 0) node = Inr w"
    by blast
  have agg: "fedavg_aggregate [w] [n_samples node] = Inr w"
    using n by (intro aggregate_single) simp
  obtain ng ga rb prev where
    gb: "get_best (registry e) = Inr prev" and
    rb: "rollback_protection prev w (compute_accuracy (global_acc_noise d) w r 0.86) = (ng, ga, rb)"
    using save_version_rule [OF ok] by (metis prod_cases3)
  from save_version_rule [OF ok, of "clock d" r ng ga] obtain reg1 where
    sv: "save_version (clock d) r ng ga (registry e) = (Inr (), reg1)" and ok1: "registry_ok reg1"
    by blast
  from report_epsilon_ok obtain eps where eps: "report_epsilon e [n_samples node] = Inr eps"
    by blast
  have "\<exists>res. run_round d r e = (Inr res, e\<lparr>registry := reg1, global_weights := ng,
                 round_history := round_history e @ [res]\<rparr>) \<and> weight_divergence res = 0"
    using h w agg gb rb sv eps divergence_single [of w]
    by (simp add: run_round_def Let_def)
  then obtain res where rr: "run_round d r e = (Inr res, e\<lparr>registry := reg1,
      global_weights := ng, round_history := round_history e @ [res]\<rparr>)"
    and wd: "weight_divergence res = 0" by blast
  have "single_node_engine (e\<lparr>registry := reg1, global_weights := ng,
      round_history := round_history e @ [res]\<rparr>)"
    using h n dp ok1 by (simp add: single_node_engine_def)
  with rr wd show ?thesis by simp
qed

lemma demo_engine:
  "\<exists>e. FedAvgEngine_init demo_init 1 dp sigma 0.01 1 = Inr e \<and>
       hospitals e = [init_node demo_init 0] \<and> dp_enabled e = dp \<and> dp_sigma e = sigma \<and>
       registry e = ModelRegistry_init \<and> round_history e = []"
  by (simp add: FedAvgEngine_init_def init_hospitals_def)

lemma demo_engine_single:
  assumes "hospitals e = [init_node demo_init 0]" "dp_enabled e \<longrightarrow> dp_sigma e \<ge> 0"
    "registry_ok (registry e)"
  shows "single_node_engine e"
  using assms by (simp add: single_node_engine_def init_node_def demo_init_def Let_def)

lemma compute_accuracy_saturated: "compute_accuracy 1 w r 0.86 = 0.99"
proof -
  define p where "p = 1 / (1 + exp (- 0.4 * (real_of_int r - 8)))"
  have "0 < 1 + exp (- 0.4 * (real_of_int r - 8))" by (simp add: add_pos_pos)
  then have "0 \<le> p" by (simp add: p_def)
  then have "0 \<le> (0.86 - 0.60) * p" by simp
  then have "0.99 \<le> 0.60 + (0.86 - 0.60) * p + 1" by simp
  then show ?thesis
    unfolding compute_accuracy_def Let_def clip_def p_def [symmetric] by simp
qed

lemma compute_accuracy_round8: "compute_accuracy 0 w 8 0.86 = 0.73"
  by (simp add: compute_accuracy_def clip_def)

lemma first_round_registry:
  assumes "run_round d r e = (Inr res, e1)" "registry e = ModelRegistry_init" "r \<noteq> - 1"
  shows "\<exists>w. get_best (registry e1) =
     Inr (Some \<lparr>version_id = r, weights = w,
                 accuracy = compute_accuracy (global_acc_noise d) [] r 0.86, timestamp = clock d\<rparr>)
     \<and> global_accuracy res = compute_accuracy (global_acc_noise d) [] r 0.86"
  using assms(1)
proof (rule run_round_Inr)
  fix candidate prev_best new_global global_acc rollback_active reg1 eps accs local_weights
  assume gb: "get_best (registry e) = Inr prev_best"
    and rb: "rollback_protection prev_best candidate
           (compute_accuracy (global_acc_noise d) candidate r 0.86) =
         (new_global, global_acc, rollback_active)"
    and sv: "save_version (clock d) r new_global global_acc (registry e) = (Inr (), reg1)"
    and res: "res = \<lparr>round_num = r,
                 global_accuracy = global_acc,
                 global_loss = 1 - global_acc,
                 node_accuracies = accs,
                 weight_divergence =
                   mean (map (\<lambda>w. norm_fro (map2 (-) w candidate)) local_weights),
                 privacy_epsilon = eps,
                 secure_agg_status =
                   (if \<not> rollback_active then ''Rollback Strategy Active''
                    else ''Safe Rollback Applied''),
                 converged =
                   (mean (map (\<lambda>w. norm_fro (map2 (-) w candidate)) local_weights) < 0.01
                    \<and> r \<ge> 10)\<rparr>"
    and e1: "e1 = e\<lparr>registry := reg1, global_weights := new_global,
                 round_history := round_history e @ [res]\<rparr>"
  from gb assms(2) have "prev_best = None"
    by (simp add: get_best_def ModelRegistry_init_def)
  with rb have ng: "new_global = candidate"
    "global_acc = compute_accuracy (global_acc_noise d) [] r 0.86"
    by (simp_all add: rollback_protection_def compute_accuracy_weights [of _ candidate _ _ "[]"])
  from sv assms(2,3) ng have "get_best reg1 =
     Inr (Some \<lparr>version_id = r, weights = candidate,
                 accuracy = compute_accuracy (global_acc_noise d) [] r 0.86, timestamp = clock d\<rparr>)"
    by (auto simp: save_version_def ModelRegistry_init_def get_best_def getitem_def)
  with e1 res ng show ?thesis by auto
qed

theorem convergence_decision_witness:
  "\<exists>e res e1 res3 e3. FedAvgEngine_init demo_init 1 True 0.15 0.01 1 = Inr e \<and>
      run_round quiet_round 10 e = (Inr res, e1) \<and> converged res \<and> round_num res = 10 \<and>
      round_history e1 = [res] \<and>
      run_round quiet_round 3 e = (Inr res3, e3) \<and> \<not> converged res3 \<and> round_num res3 = 3"
proof -
  from demo_engine [of True "0.15"] obtain e where e:
    "FedAvgEngine_init demo_init 1 True 0.15 0.01 1 = Inr e"
    "hospitals e = [init_node demo_init 0]" "dp_enabled e = True" "dp_sigma e = 0.15"
    "registry e = ModelRegistry_init" "round_history e = []"
    by blast
  have s: "single_node_engine e"
    using e by (intro demo_engine_single) (simp_all add: registry_ok_init)
  from single_node_round [OF s, of quiet_round 10] obtain res e1 where
    rr: "run_round quiet_round 10 e = (Inr res, e1)" and wd: "weight_divergence res = 0"
    by blast
  from single_node_round [OF s, of quiet_round 3] obtain res3 e3 where
    rr3: "run_round quiet_round 3 e = (Inr res3, e3)"
    by blast
  from convergence_decision [OF rr] wd e(6)
  have A: "converged res \<and> round_num res = 10 \<and> round_history e1 = [res]" by simp
  from convergence_decision [OF rr3]
  have B: "\<not> converged res3 \<and> round_num res3 = 3" by simp
  from e(1) rr rr3 A B show ?thesis by blast
qed

theorem rollback_bound_witness:
  "\<exists>e res1 e1 res e2.
      FedAvgEngine_init demo_init 1 False 0.15 0.01 1 = Inr e \<and>
      run_round lucky_round 1 e = (Inr res1, e1) \<and> global_accuracy res1 = 0.99 \<and>
      run_round quiet_round 8 e1 = (Inr res, e2) \<and> global_accuracy res = 0.99 \<and>
      secure_agg_status res = ''Safe Rollback Applied''"
proof -
  from demo_engine [of False "0.15"] obtain e where e:
    "FedAvgEngine_init demo_init 1 False 0.15 0.01 1 = Inr e"
    "hospitals e = [init_node demo_init 0]" "dp_enabled e = False"
    "registry e = ModelRegistry_init"
    by blast
  have "single_node_engine e"
    using e by (intro demo_engine_single) (simp_all add: registry_ok_init)
  from single_node_round [OF this, of lucky_round 1] obtain res1 e1 where
    r1: "run_round lucky_round 1 e = (Inr res1, e1)" and s1: "single_node_engine e1"
    by blast
  have sat: "compute_accuracy (global_acc_noise lucky_round) [] 1 0.86 = 0.99"
    using compute_accuracy_saturated [of "[]" 1] by (simp add: lucky_round_def)
  from first_round_registry [OF r1 e(4)] obtain w where
    "get_best (registry e1) =
       Inr (Some \<lparr>version_id = 1, weights = w,
          accuracy = compute_accuracy (global_acc_noise lucky_round) [] 1 0.86,
          timestamp = clock lucky_round\<rparr>)"
    "global_accuracy res1 = compute_accuracy (global_acc_noise lucky_round) [] 1 0.86"
    by auto
  then have gb: "get_best (registry e1) =
       Inr (Some \<lparr>version_id = 1, weights = w, accuracy = 0.99,
          timestamp = clock lucky_round\<rparr>)"
    and a1: "global_accuracy res1 = 0.99"
    unfolding sat by simp_all
  from single_node_round [OF s1, of quiet_round 8] obtain res e2 where
    r2: "run_round quiet_round 8 e1 = (Inr res, e2)"
    by blast
  have "compute_accuracy (global_acc_noise quiet_round) [] 8 0.86 < 0.99 - 0.05"
    using compute_accuracy_round8 [of "[]"] by (simp add: quiet_round_def)
  with rollback_bound [OF r2 gb, of "[]"]
  have "global_accuracy res = 0.99 \<and> secure_agg_status res = ''Safe Rollback Applied''"
    by simp
  with e(1) r1 a1 r2 show ?thesis by blast
qed

theorem epsilon_reporting_witness:
  "(\<exists>e res e1. FedAvgEngine_init demo_init 1 True 0.15 0.01 1 = Inr e \<and>
      run_round quiet_round 1 e = (Inr res, e1) \<and>
      privacy_epsilon res = Fin (sqrt (2 * ln (1.25 / 0.00001)) / 0.15)) \<and>
   (\<exists>e res e1. FedAvgEngine_init demo_init 1 True 0 0.01 1 = Inr e \<and>
      run_round quiet_round 1 e = (Inr res, e1) \<and> privacy_epsilon res = PosInf) \<and>
   (\<exists>e res e1. FedAvgEngine_init demo_init 1 False 0.15 0.01 1 = Inr e \<and>
      run_round quiet_round 1 e = (Inr res, e1) \<and> privacy_epsilon res = Fin 0)"
proof -
  have *: "\<exists>e res e1. FedAvgEngine_init demo_init 1 dp sigma 0.01 1 = Inr e \<and>
      run_round quiet_round 1 e = (Inr res, e1) \<and>
      (dp \<and> sigma > 0 \<longrightarrow> privacy_epsilon res = Fin (sqrt (2 * ln (1.25 / 0.00001)) / sigma)) \<and>
      (dp \<and> sigma = 0 \<longrightarrow> privacy_epsilon res = PosInf) \<and>
      (\<not> dp \<longrightarrow> privacy_epsilon res = Fin 0)"
    if "dp \<longrightarrow> sigma \<ge> 0" for dp sigma
  proof -
    from demo_engine [of dp sigma] obtain e where e:
      "FedAvgEngine_init demo_init 1 dp sigma 0.01 1 = Inr e"
      "hospitals e = [init_node demo_init 0]" "dp_enabled e = dp" "dp_sigma e = sigma"
      "registry e = ModelRegistry_init"
      by blast
    have "single_node_engine e"
      using e that by (intro demo_engine_single) (simp_all add: registry_ok_init)
    from single_node_round [OF this, of quiet_round 1] obtain res e1 where
      rr: "run_round quiet_round 1 e = (Inr res, e1)" by blast
    from epsilon_reporting [OF rr] e(3,4)
    have "(dp \<and> sigma > 0 \<longrightarrow> privacy_epsilon res = Fin (sqrt (2 * ln (1.25 / 0.00001)) / sigma)) \<and>
      (dp \<and> sigma = 0 \<longrightarrow> privacy_epsilon res = PosInf) \<and>
      (\<not> dp \<longrightarrow> privacy_epsilon res = Fin 0)" by simp
    with e(1) rr show ?thesis by blast
  qed
  from * [of True "0.15"] * [of True 0] * [of False "0.15"] show ?thesis by simp
qed

subsection \<open>Simulations\<close>

lemma run_round_converged:
  "run_round d r e = (Inr res, e1) \<Longrightarrow> converged res = (weight_divergence res < 0.01 \<and> r \<ge> 10)"
  by (erule run_round_Inr) auto

lemma single_node_sim:
  "single_node_engine e \<Longrightarrow>
   \<exists>e1. sim_loop ds k r e = (Inr (), e1) \<and> single_node_engine e1 \<and>
        int (length (round_history e1)) =
          int (length (round_history e)) + min (int k) (max r 16 - r + 1)"
proof (induction k arbitrary: r e)
  case 0
  then show ?case by simp
next
  case (Suc k)
  from single_node_round [OF Suc.prems, of "ds r" r] obtain res e1 where
    rr: "run_round (ds r) r e = (Inr res, e1)" and wd: "weight_divergence res = 0"
    and s1: "single_node_engine e1"
    by blast
  from run_round_converged [OF rr] wd have cv: "converged res = (r \<ge> 10)" by simp
  from run_round_round_num [OF rr] have len: "length (round_history e1) = Suc (length (round_history e))"
    by simp
  show ?case
  proof (cases "r > 15")
    case True
    with rr cv have "sim_loop ds (Suc k) r e = (Inr (), e1)" by simp
    moreover from True have "min (int (Suc k)) (max r 16 - r + 1) = 1" by simp
    ultimately show ?thesis using s1 len by simp
  next
    case False
    with rr have sl: "sim_loop ds (Suc k) r e = sim_loop ds k (r + 1) e1" by simp
    from Suc.IH [OF s1, of "r + 1"] obtain e2 where
      e2: "sim_loop ds k (r + 1) e1 = (Inr (), e2)" "single_node_engine e2"
      "int (length (round_history e2)) =
          int (length (round_history e1)) + min (int k) (max (r + 1) 16 - (r + 1) + 1)"
      by blast
    from False have "min (int (Suc k)) (max r 16 - r + 1) = 1 + min (int k) (max (r + 1) 16 - (r + 1) + 1)"
      by simp
    with e2 sl len show ?thesis by simp
  qed
qed

lemma run_simulation_sim_loop:
  "snd (run_simulation ds n e) = snd (sim_loop ds (nat n) 1 (e\<lparr>round_history := []\<rparr>)) \<and>
   (fst (run_simulation ds n e) = Inr h \<longleftrightarrow>
      fst (sim_loop ds (nat n) 1 (e\<lparr>round_history := []\<rparr>)) = Inr () \<and>
      h = round_history (snd (sim_loop ds (nat n) 1 (e\<lparr>round_history := []\<rparr>))))"
  by (auto simp: run_simulation_def split: prod.splits sum.splits)

text \<open>
  Claim C7. In the history that \<open>run_simulation\<close> leaves, a round that is converged
  with a number above 15 is followed by no other round: the loop stops before the next
  round starts. When the simulation returns, its result is that history, and either the
  loop ran through the whole budget of \<open>n_rounds\<close> rounds or the last round is converged
  with a number above 15; so a round converged at or before round 15 is recorded and does
  not stop the loop.
\<close>

theorem early_stop_policy:
  "(\<forall>x \<in> set (butlast (round_history (snd (run_simulation ds n e)))).
      \<not> (converged x \<and> round_num x > 15)) \<and>
   (\<forall>h. fst (run_simulation ds n e) = Inr h \<longrightarrow>
      h = round_history (snd (run_simulation ds n e)) \<and>
      (length h = nat n \<or> (h \<noteq> [] \<and> converged (last h) \<and> round_num (last h) > 15)))"
proof -
  let ?e0 = "e\<lparr>round_history := []\<rparr>"
  from sim_loop_history [of ds "nat n" 1 ?e0] obtain rs where rs:
    "round_history (snd (sim_loop ds (nat n) 1 ?e0)) = round_history ?e0 @ rs"
    "\<forall>x \<in> set (butlast rs). \<not> (converged x \<and> round_num x > 15)"
    "fst (sim_loop ds (nat n) 1 ?e0) = Inr () \<longrightarrow>
       length rs = nat n \<or> (rs \<noteq> [] \<and> converged (last rs) \<and> round_num (last rs) > 15)"
    by blast
  from rs(1) have h: "round_history (snd (run_simulation ds n e)) = rs"
    by (simp add: run_simulation_sim_loop)
  show ?thesis
    using rs(2,3) h run_simulation_sim_loop [of ds n e] by auto
qed

text \<open>
  Claim C10. \<open>run_simulation\<close> starts from an empty round history: its outcome does not
  depend on the history the engine had before the call, and after the call the history
  holds the rounds of this call only, at most \<open>n_rounds\<close> of them, numbered 1, 2, ...
  without a gap; the list it returns is that history.
\<close>

theorem simulation_resets_history:
  "run_simulation ds n (e\<lparr>round_history := h0\<rparr>) = run_simulation ds n e \<and>
   map round_num (round_history (snd (run_simulation ds n e))) =
     [1..int (length (round_history (snd (run_simulation ds n e))))] \<and>
   length (round_history (snd (run_simulation ds n e))) \<le> nat n \<and>
   (\<forall>h. fst (run_simulation ds n e) = Inr h \<longrightarrow>
      h = round_history (snd (run_simulation ds n e)))"
proof -
  let ?e0 = "e\<lparr>round_history := []\<rparr>"
  from sim_loop_history [of ds "nat n" 1 ?e0] obtain rs where rs:
    "round_history (snd (sim_loop ds (nat n) 1 ?e0)) = round_history ?e0 @ rs"
    "map round_num rs = [1..1 + int (length rs) - 1]"
    "length rs \<le> nat n"
    by blast
  from rs(1) have h: "round_history (snd (run_simulation ds n e)) = rs"
    by (simp add: run_simulation_sim_loop)
  have A: "run_simulation ds n (e\<lparr>round_history := h0\<rparr>) = run_simulation ds n e"
    by (simp add: run_simulation_def)
  show ?thesis
    using A rs(2,3) h run_simulation_sim_loop [of ds n e] by auto
qed

lemma demo_simulation:
  assumes "single_node_engine e" "0 \<le> n"
  shows "\<exists>e1. run_simulation ds n e = (Inr (round_history e1), e1) \<and> single_node_engine e1 \<and>
           int (length (round_history e1)) = min n 16"
proof -
  have "single_node_engine (e\<lparr>round_history := []\<rparr>)"
    using assms(1) by (simp add: single_node_engine_def)
  from single_node_sim [OF this, of ds "nat n" 1] assms(2) show ?thesis
    by (auto simp: run_simulation_def)
qed

theorem early_stop_policy_witness:
  "\<exists>e h e1. FedAvgEngine_init demo_init 1 False 0.15 0.01 1 = Inr e \<and>
      run_simulation (\<lambda>r. quiet_round) 20 e = (Inr h, e1) \<and> length h = 16 \<and>
      converged (last h) \<and> round_num (last h) > 15 \<and>
      (\<forall>x \<in> set (butlast h). \<not> (converged x \<and> round_num x > 15))"
proof -
  from demo_engine [of False "0.15"] obtain e where e:
    "FedAvgEngine_init demo_init 1 False 0.15 0.01 1 = Inr e"
    "hospitals e = [init_node demo_init 0]" "dp_enabled e = False"
    "registry e = ModelRegistry_init"
    by blast
  have "single_node_engine e"
    using e by (intro demo_engine_single) (simp_all add: registry_ok_init)
  from demo_simulation [OF this, of 20 "\<lambda>r. quiet_round"] obtain e1 where
    rs: "run_simulation (\<lambda>r. quiet_round) 20 e = (Inr (round_history e1), e1)"
    and len: "length (round_history e1) = 16"
    by auto
  from early_stop_policy [where ds = "\<lambda>r. quiet_round" and n = 20 and e = e] rs len
  have "converged (last (round_history e1)) \<and> round_num (last (round_history e1)) > 15 \<and>
      (\<forall>x \<in> set (butlast (round_history e1)). \<not> (converged x \<and> round_num x > 15))"
    by simp
  with e(1) rs len show ?thesis by blast
qed

theorem simulation_resets_history_witness:
  "\<exists>e h e1 h2 e2. FedAvgEngine_init demo_init 1 False 0.15 0.01 1 = Inr e \<and>
      run_simulation (\<lambda>r. quiet_round) 20 e = (Inr h, e1) \<and> length h = 16 \<and>
      run_simulation (\<lambda>r. quiet_round) 3 e1 = (Inr h2, e2) \<and>
      round_history e2 = h2 \<and> map round_num h2 = [1, 2, 3]"
proof -
  from demo_engine [of False "0.15"] obtain e where e:
    "FedAvgEngine_init demo_init 1 False 0.15 0.01 1 = Inr e"
    "hospitals e = [init_node demo_init 0]" "dp_enabled e = False"
    "registry e = ModelRegistry_init"
    by blast
  have "single_node_engine e"
    using e by (intro demo_engine_single) (simp_all add: registry_ok_init)
  from demo_simulation [OF this, of 20 "\<lambda>r. quiet_round"] obtain e1 where
    rs: "run_simulation (\<lambda>r. quiet_round) 20 e = (Inr (round_history e1), e1)"
    and s1: "single_node_engine e1"
    and len: "length (round_history e1) = 16"
    by auto
  from demo_simulation [OF s1, of 3 "\<lambda>r. quiet_round"] obtain e2 where
    rs2: "run_simulation (\<lambda>r. quiet_round) 3 e1 = (Inr (round_history e2), e2)"
    and len2: "length (round_history e2) = 3"
    by auto
  from simulation_resets_history [where ds = "\<lambda>r. quiet_round" and n = 3 and e = e1] rs2 len2
  have "map round_num (round_history e2) = [1, 2, 3]"
    by (simp add: upto_rec1)
  with e(1) rs len rs2 show ?thesis
    by (intro exI [of _ e] exI [of _ "round_history e1"] exI [of _ e1]
        exI [of _ "round_history e2"] exI [of _ e2]) simp
qed








end
